theory Spec2Isabelle
  imports Complex_Main
begin

section \<open>The trigger engine of the crypto dashboard\<close>

text \<open>
  A shallow embedding of \<^verbatim>\<open>triggers.py\<close> (class \<^verbatim>\<open>TriggerEngine\<close>) together with the two
  collaborators it calls, \<^verbatim>\<open>telegram_utils.send_telegram_message\<close> and
  \<^verbatim>\<open>journal.append_journal_entry\<close>.

  Python floats are modelled as real numbers, so arithmetic is exact; instants are seconds.
  The attributes of the engine object and the outside world it writes to are one record
  that every method takes and returns. A raised exception is a value \<open>Inl e\<close>; the state
  comes back beside it, because the mutations made before a raise persist in Python.
\<close>

subsection \<open>Data\<close>

type_synonym allocation = "real \<times> real \<times> real"

text \<open>
  One element of \<^verbatim>\<open>metrics['macro_events']\<close>: a dict read at the keys \<^verbatim>\<open>'event'\<close> and
  \<^verbatim>\<open>'date'\<close>. A key that the dict lacks is \<open>None\<close> (subscripting it raises \<^verbatim>\<open>KeyError\<close>).
\<close>

record macro_event =
  event :: "string option"
  date :: "string option"

text \<open>The metrics dict, read with \<^verbatim>\<open>metrics.get(key, default)\<close>: an absent key is \<open>None\<close>.\<close>

record metrics =
  btc_dominance :: "real option"
  alt_season_index :: "real option"
  btc_funding_rate :: "real option"
  hype_funding_rate :: "real option"
  stablecoin_delta :: "real option"
  macro_events :: "macro_event list option"

definition dict_get :: "'a option \<Rightarrow> 'a \<Rightarrow> 'a" where
  "dict_get v d = (case v of None \<Rightarrow> d | Some x \<Rightarrow> x)"

datatype error = OSError

text \<open>A call made to one of the two collaborators, with its arguments.\<close>

datatype sink_call =
  Notify string
| Journal string real string string

text \<open>A line of the journal file: the header, or a row (date, asset, change, reason, emotion).\<close>

datatype journal_row =
  Header
| Row real string real string string

text \<open>
  What the code reads from outside during one call of \<^verbatim>\<open>check_all_triggers\<close>:
  \<^item> \<open>time_time\<close>: \<^verbatim>\<open>time.time()\<close>, and \<open>datetime_now\<close>: \<^verbatim>\<open>datetime.now()\<close> as seconds on the
    local time line; both are read as constant during one call;
  \<^item> \<open>strptime\<close>: \<^verbatim>\<open>datetime.strptime(s, '%Y-%m-%d')\<close> as seconds on the local time line,
    \<open>None\<close> when it raises;
  \<^item> \<open>format_spec\<close>: the text of a number under a format specifier (\<^verbatim>\<open>f"{x:.1f}"\<close>);
  \<^item> \<open>TG_TOKEN\<close>, \<open>TG_CHAT\<close>: the two environment variables;
  \<^item> \<open>requests_post\<close>: the HTTP request with \<^verbatim>\<open>raise_for_status\<close>; \<open>Some e\<close> when it
    raises an exception whose text is \<open>e\<close>;
  \<^item> \<open>journal_raises\<close>: whether opening or writing the journal file raises for a call with
    these arguments. A call that raises leaves the file as it was.
\<close>

record env =
  time_time :: real
  datetime_now :: real
  strptime :: "string \<Rightarrow> real option"
  format_spec :: "string \<Rightarrow> real \<Rightarrow> string"
  TG_TOKEN :: "string option"
  TG_CHAT :: "string option"
  requests_post :: "string \<Rightarrow> string option"
  journal_raises :: "string \<Rightarrow> real \<Rightarrow> string \<Rightarrow> string \<Rightarrow> bool"

text \<open>
  The attributes of the \<^verbatim>\<open>TriggerEngine\<close> object (\<open>last_allocation\<close>, \<open>last_trigger_time\<close>,
  \<open>cooldown_hours\<close>) and the world it writes to: standard output, the Telegram chat, the
  journal file (\<open>None\<close> while it does not exist), and \<open>calls\<close>, the calls made to the two
  collaborators in the order they were made.
\<close>

record state =
  last_allocation :: "allocation option"
  last_trigger_time :: "string \<rightharpoonup> real"
  cooldown_hours :: real
  stdout :: "string list"
  telegram_chat :: "string list"
  journal_file :: "journal_row list option"
  calls :: "sink_call list"

text \<open>The result dict of \<^verbatim>\<open>check_all_triggers\<close>.\<close>

record trigger_results =
  rotation :: "string option"
  alt_season :: "string option"
  funding :: "string option"
  stablecoin :: "string option"
  macro :: "string option"
  allocation :: allocation

subsection \<open>Text\<close>

text \<open>The characters of the messages outside ASCII, as their UTF-8 bytes.\<close>

definition emoji_arrows :: string where
  "emoji_arrows = [CHR 0xF0, CHR 0x9F, CHR 0x94, CHR 0x84]"

definition up_arrow :: string where
  "up_arrow = [CHR 0xE2, CHR 0x86, CHR 0x91]"

definition en_dash :: string where
  "en_dash = [CHR 0xE2, CHR 0x80, CHR 0x93]"

definition emoji_neutral :: string where
  "emoji_neutral = [CHR 0xF0, CHR 0x9F, CHR 0x98, CHR 0x90]"

definition emoji_rocket :: string where
  "emoji_rocket = [CHR 0xF0, CHR 0x9F, CHR 0x9A, CHR 0x80]"

definition ge_sign :: string where
  "ge_sign = [CHR 0xE2, CHR 0x89, CHR 0xA5]"

definition emoji_chart_down :: string where
  "emoji_chart_down = [CHR 0xF0, CHR 0x9F, CHR 0x93, CHR 0x89]"

definition emoji_warning :: string where
  "emoji_warning = [CHR 0xE2, CHR 0x9A, CHR 0xA0, CHR 0xEF, CHR 0xB8, CHR 0x8F]"

definition emoji_money :: string where
  "emoji_money = [CHR 0xF0, CHR 0x9F, CHR 0x92, CHR 0xB0]"

definition emoji_calendar :: string where
  "emoji_calendar = [CHR 0xF0, CHR 0x9F, CHR 0x93, CHR 0x85]"

definition emoji_bar_chart :: string where
  "emoji_bar_chart = [CHR 0xF0, CHR 0x9F, CHR 0x93, CHR 0x8A]"

definition newline :: string where
  "newline = [CHR 0x0A]"

definition rotation_message :: "env \<Rightarrow> real \<Rightarrow> real \<Rightarrow> string" where
  "rotation_message E btc_dom alt_index =
     emoji_arrows @ '' *BTC.D < 60% & alt momentum '' @ up_arrow @ ''* '' @ en_dash
       @ '' start rotation.'' @ newline @ ''BTC Dom: '' @ format_spec E ''.1f'' btc_dom
       @ ''% | Alt Index: '' @ format_spec E ''.1f'' alt_index"

definition alt_full_message :: "env \<Rightarrow> real \<Rightarrow> string" where
  "alt_full_message E alt_index =
     emoji_rocket @ '' *Full alt-season ('' @ ge_sign @ '' 75)*'' @ newline
       @ ''Alt Index: '' @ format_spec E ''.1f'' alt_index"

definition alt_end_message :: "env \<Rightarrow> real \<Rightarrow> string" where
  "alt_end_message E alt_index =
     emoji_chart_down @ '' *Back to BTC dominance*'' @ newline
       @ ''Alt Index: '' @ format_spec E ''.1f'' alt_index"

definition funding_btc_message :: "env \<Rightarrow> real \<Rightarrow> string" where
  "funding_btc_message E btc_funding =
     emoji_warning @ '' *Crowded leverage: BTC*'' @ newline
       @ ''Funding: '' @ format_spec E ''.3f'' btc_funding @ ''%/8h''"

definition funding_btc_reason :: "env \<Rightarrow> real \<Rightarrow> string" where
  "funding_btc_reason E btc_funding =
     ''Crowded leverage: BTC. Funding '' @ format_spec E ''.3f'' btc_funding @ ''%''"

definition funding_hype_message :: "env \<Rightarrow> real \<Rightarrow> string" where
  "funding_hype_message E hype_funding =
     emoji_warning @ '' *Crowded leverage: HYPE*'' @ newline
       @ ''Funding: '' @ format_spec E ''.3f'' hype_funding @ ''%/8h''"

definition funding_hype_reason :: "env \<Rightarrow> real \<Rightarrow> string" where
  "funding_hype_reason E hype_funding =
     ''Crowded leverage: HYPE. Funding '' @ format_spec E ''.3f'' hype_funding @ ''%''"

definition stablecoin_message :: "env \<Rightarrow> real \<Rightarrow> string" where
  "stablecoin_message E stable_delta =
     emoji_money @ '' *New stable-coin issuance '' @ en_dash @ '' ammo loaded*'' @ newline
       @ ''7d Change: $'' @ format_spec E ''.1f'' (stable_delta / 1000000000) @ ''B''"

definition macro_message :: "string \<Rightarrow> string \<Rightarrow> string" where
  "macro_message name d =
     emoji_calendar @ '' *Macro in play: '' @ name @ ''*'' @ newline @ ''Date: '' @ d"

definition macro_reason :: "string \<Rightarrow> string" where
  "macro_reason name = ''Macro in play: '' @ name"

definition allocation_message :: "env \<Rightarrow> allocation \<Rightarrow> string" where
  "allocation_message E a =
     emoji_bar_chart @ '' *Allocation Update*'' @ newline
       @ ''BTC: '' @ format_spec E ''.0%'' (fst a)
       @ '' | ALTS: '' @ format_spec E ''.0%'' (fst (snd a))
       @ '' | STABLES: '' @ format_spec E ''.0%'' (snd (snd a))"

text \<open>\<^verbatim>\<open>"; ".join(messages)\<close>\<close>

fun join :: "string \<Rightarrow> string list \<Rightarrow> string" where
  "join sep [] = []"
| "join sep [x] = x"
| "join sep (x # y # ys) = x @ sep @ join sep (y # ys)"

subsection \<open>The collaborators\<close>

text \<open>Python's \<^verbatim>\<open>not v\<close> for the result of \<^verbatim>\<open>os.getenv\<close>: unset, or the empty string.\<close>

definition falsy :: "string option \<Rightarrow> bool" where
  "falsy v = (case v of None \<Rightarrow> True | Some x \<Rightarrow> x = [])"

text \<open>
  \<^verbatim>\<open>send_telegram_message\<close>: without a token or a chat it prints the alert and returns
  \<^verbatim>\<open>False\<close>; otherwise it posts, and an exception of the request is caught, printed, and
  answered with \<^verbatim>\<open>False\<close>.
\<close>

definition send_telegram_message :: "env \<Rightarrow> string \<Rightarrow> state \<Rightarrow> bool \<times> state" where
  "send_telegram_message E text s =
     (let s0 = s\<lparr>calls := calls s @ [Notify text]\<rparr> in
      if falsy (TG_TOKEN E) \<or> falsy (TG_CHAT E)
      then (False, s0\<lparr>stdout := stdout s0 @ [''Telegram alert (no bot configured): '' @ text]\<rparr>)
      else (case requests_post E text of
              None \<Rightarrow> (True, s0\<lparr>telegram_chat := telegram_chat s0 @ [text]\<rparr>)
            | Some e \<Rightarrow>
                (False, s0\<lparr>stdout := stdout s0 @ [''Failed to send Telegram message: '' @ e]\<rparr>)))"

definition ensure_journal_exists :: "state \<Rightarrow> state" where
  "ensure_journal_exists s =
     (case journal_file s of
        None \<Rightarrow> s\<lparr>journal_file := Some [Header]\<rparr>
      | Some rows \<Rightarrow> s)"

text \<open>
  \<^verbatim>\<open>append_journal_entry\<close> has no exception handler: what opening or writing the file
  raises reaches the caller.
\<close>

definition append_journal_entry ::
  "env \<Rightarrow> string \<Rightarrow> real \<Rightarrow> string \<Rightarrow> string \<Rightarrow> state \<Rightarrow> (error + unit) \<times> state" where
  "append_journal_entry E asset change_pct reason emotion s =
     (let s0 = s\<lparr>calls := calls s @ [Journal asset change_pct reason emotion]\<rparr> in
      if journal_raises E asset change_pct reason emotion then (Inl OSError, s0)
      else
        (let s1 = ensure_journal_exists s0 in
         (Inr (), s1\<lparr>journal_file :=
            Some (dict_get (journal_file s1) [] @
                  [Row (datetime_now E) asset change_pct reason emotion])\<rparr>)))"

subsection \<open>The engine\<close>

definition TriggerEngine_init :: "state \<Rightarrow> state" where
  "TriggerEngine_init w =
     w\<lparr>last_allocation := None, last_trigger_time := Map.empty, cooldown_hours := 12\<rparr>"

text \<open>\<^verbatim>\<open>_should_trigger\<close>: a name with no entry reads as instant 0.\<close>

definition should_trigger :: "env \<Rightarrow> state \<Rightarrow> string \<Rightarrow> bool" where
  "should_trigger E s trigger_name =
     (let now = time_time E;
          last_time = dict_get (last_trigger_time s trigger_name) 0
      in (now - last_time) \<ge> (cooldown_hours s * 3600))"

text \<open>\<^verbatim>\<open>_record_trigger\<close>\<close>

definition record_trigger :: "env \<Rightarrow> string \<Rightarrow> state \<Rightarrow> state" where
  "record_trigger E trigger_name s =
     s\<lparr>last_trigger_time := (last_trigger_time s)(trigger_name \<mapsto> time_time E)\<rparr>"

definition calculate_allocation :: "metrics \<Rightarrow> allocation" where
  "calculate_allocation m =
     (let btc_dom = dict_get (btc_dominance m) 60;
          alt_index = dict_get (alt_season_index m) 50
      in if btc_dom \<ge> 61 \<and> alt_index < 50 then (0.70, 0.25, 0.05)
         else if btc_dom < 60 \<and> alt_index \<ge> 50 then (0.45, 0.50, 0.05)
         else (0.60, 0.35, 0.05))"

text \<open>
  The evaluators. Each one records the cooldown first, then notifies, then writes the
  journal; an exception of the journal leaves the evaluator there.
\<close>

definition check_rotation_triggers ::
  "env \<Rightarrow> metrics \<Rightarrow> state \<Rightarrow> (error + string option) \<times> state" where
  "check_rotation_triggers E m s =
     (let btc_dom = dict_get (btc_dominance m) 60;
          alt_index = dict_get (alt_season_index m) 50;
          trigger_name = ''rotation''
      in if btc_dom < 60 \<and> alt_index > 50 \<and> should_trigger E s trigger_name then
           (let s1 = record_trigger E trigger_name s;
                message = rotation_message E btc_dom alt_index;
                s2 = snd (send_telegram_message E message s1)
            in case append_journal_entry E ''ROTATION'' (- 10) ''BTC.D <60, rotate''
                      emoji_neutral s2 of
                 (Inl e, s3) \<Rightarrow> (Inl e, s3)
               | (Inr u, s3) \<Rightarrow> (Inr (Some message), s3))
         else (Inr None, s))"

definition check_alt_season_triggers ::
  "env \<Rightarrow> metrics \<Rightarrow> state \<Rightarrow> (error + string option) \<times> state" where
  "check_alt_season_triggers E m s =
     (let alt_index = dict_get (alt_season_index m) 50
      in if alt_index \<ge> 75 \<and> should_trigger E s ''alt_season_full'' then
           (let s1 = record_trigger E ''alt_season_full'' s;
                message = alt_full_message E alt_index;
                s2 = snd (send_telegram_message E message s1)
            in case append_journal_entry E ''ALTS'' 25 ''Full alt-season'' emoji_rocket s2 of
                 (Inl e, s3) \<Rightarrow> (Inl e, s3)
               | (Inr u, s3) \<Rightarrow> (Inr (Some message), s3))
         else if alt_index \<le> 25 \<and> should_trigger E s ''alt_season_end'' then
           (let s1 = record_trigger E ''alt_season_end'' s;
                message = alt_end_message E alt_index;
                s2 = snd (send_telegram_message E message s1)
            in case append_journal_entry E ''BTC'' 20 ''Back to BTC dominance''
                      emoji_chart_down s2 of
                 (Inl e, s3) \<Rightarrow> (Inl e, s3)
               | (Inr u, s3) \<Rightarrow> (Inr (Some message), s3))
         else (Inr None, s))"

text \<open>
  The two halves of \<^verbatim>\<open>check_funding_triggers\<close>: each takes the list \<open>messages\<close> and the
  state, and returns the list extended when its condition fires.
\<close>

definition funding_btc_check ::
  "env \<Rightarrow> metrics \<Rightarrow> string list \<Rightarrow> state \<Rightarrow> (error + string list) \<times> state" where
  "funding_btc_check E m messages s =
     (let btc_funding = dict_get (btc_funding_rate m) 0
      in if \<bar>btc_funding\<bar> \<ge> 0.10 \<and> should_trigger E s ''funding_btc'' then
           (let s1 = record_trigger E ''funding_btc'' s;
                message = funding_btc_message E btc_funding;
                s2 = snd (send_telegram_message E message s1)
            in case append_journal_entry E ''BTC'' (- 20) (funding_btc_reason E btc_funding)
                      emoji_warning s2 of
                 (Inl e, s3) \<Rightarrow> (Inl e, s3)
               | (Inr u, s3) \<Rightarrow> (Inr (messages @ [message]), s3))
         else (Inr messages, s))"

definition funding_hype_check ::
  "env \<Rightarrow> metrics \<Rightarrow> string list \<Rightarrow> state \<Rightarrow> (error + string list) \<times> state" where
  "funding_hype_check E m messages s =
     (let hype_funding = dict_get (hype_funding_rate m) 0
      in if \<bar>hype_funding\<bar> \<ge> 0.10 \<and> should_trigger E s ''funding_hype'' then
           (let s1 = record_trigger E ''funding_hype'' s;
                message = funding_hype_message E hype_funding;
                s2 = snd (send_telegram_message E message s1)
            in case append_journal_entry E ''HYPE'' (- 20) (funding_hype_reason E hype_funding)
                      emoji_warning s2 of
                 (Inl e, s3) \<Rightarrow> (Inl e, s3)
               | (Inr u, s3) \<Rightarrow> (Inr (messages @ [message]), s3))
         else (Inr messages, s))"

definition check_funding_triggers ::
  "env \<Rightarrow> metrics \<Rightarrow> state \<Rightarrow> (error + string option) \<times> state" where
  "check_funding_triggers E m s =
     (case funding_btc_check E m [] s of
        (Inl e, s1) \<Rightarrow> (Inl e, s1)
      | (Inr messages1, s1) \<Rightarrow>
          (case funding_hype_check E m messages1 s1 of
             (Inl e, s2) \<Rightarrow> (Inl e, s2)
           | (Inr messages, s2) \<Rightarrow>
               (Inr (if messages \<noteq> [] then Some (join ''; '' messages) else None), s2)))"

definition check_stablecoin_triggers ::
  "env \<Rightarrow> metrics \<Rightarrow> state \<Rightarrow> (error + string option) \<times> state" where
  "check_stablecoin_triggers E m s =
     (let stable_delta = dict_get (stablecoin_delta m) 0
      in if stable_delta \<ge> 1000000000 \<and> should_trigger E s ''stablecoin_issuance'' then
           (let s1 = record_trigger E ''stablecoin_issuance'' s;
                message = stablecoin_message E stable_delta;
                s2 = snd (send_telegram_message E message s1)
            in case append_journal_entry E ''STABLES'' 10 ''New stable-coin issuance''
                      emoji_money s2 of
                 (Inl e, s3) \<Rightarrow> (Inl e, s3)
               | (Inr u, s3) \<Rightarrow> (Inr (Some message), s3))
         else (Inr None, s))"

text \<open>
  The loop of \<^verbatim>\<open>check_macro_triggers\<close>. Its body is inside \<^verbatim>\<open>try ... except Exception:
  continue\<close>, so every exception of the body goes on to the next event: a missing
  \<^verbatim>\<open>'date'\<close> key, a date that does not parse, a missing \<^verbatim>\<open>'event'\<close> key (read only once
  the date is within 12 hours), and also an exception of the journal, which is raised
  after the cooldown is recorded and the notification sent.
\<close>

fun macro_loop :: "env \<Rightarrow> macro_event list \<Rightarrow> state \<Rightarrow> (error + string option) \<times> state" where
  "macro_loop E [] s = (Inr None, s)"
| "macro_loop E (ev # evs) s =
     (case date ev of
        None \<Rightarrow> macro_loop E evs s
      | Some d \<Rightarrow>
          (case strptime E d of
             None \<Rightarrow> macro_loop E evs s
           | Some event_date \<Rightarrow>
               (let time_diff = \<bar>(event_date - datetime_now E) / 3600\<bar>
                in if time_diff \<le> 12 then
                     (case event ev of
                        None \<Rightarrow> macro_loop E evs s
                      | Some name \<Rightarrow>
                          if should_trigger E s (''macro_'' @ name) then
                            (let s1 = record_trigger E (''macro_'' @ name) s;
                                 message = macro_message name d;
                                 s2 = snd (send_telegram_message E message s1)
                             in case append_journal_entry E ''CASH'' 0 (macro_reason name)
                                       emoji_calendar s2 of
                                  (Inl e, s3) \<Rightarrow> macro_loop E evs s3
                                | (Inr u, s3) \<Rightarrow> (Inr (Some message), s3))
                          else macro_loop E evs s)
                   else macro_loop E evs s)))"

definition check_macro_triggers ::
  "env \<Rightarrow> metrics \<Rightarrow> state \<Rightarrow> (error + string option) \<times> state" where
  "check_macro_triggers E m s = macro_loop E (dict_get (macro_events m) []) s"

text \<open>
  The dict literal that opens \<^verbatim>\<open>check_all_triggers\<close>: the five evaluators in the order
  written, the first exception ending the call.
\<close>

definition run_evaluators ::
  "env \<Rightarrow> metrics \<Rightarrow> state \<Rightarrow>
     (error + string option \<times> string option \<times> string option \<times> string option \<times> string option)
       \<times> state" where
  "run_evaluators E m s =
     (case check_rotation_triggers E m s of
        (Inl e, s1) \<Rightarrow> (Inl e, s1)
      | (Inr r1, s1) \<Rightarrow>
     (case check_alt_season_triggers E m s1 of
        (Inl e, s2) \<Rightarrow> (Inl e, s2)
      | (Inr r2, s2) \<Rightarrow>
     (case check_funding_triggers E m s2 of
        (Inl e, s3) \<Rightarrow> (Inl e, s3)
      | (Inr r3, s3) \<Rightarrow>
     (case check_stablecoin_triggers E m s3 of
        (Inl e, s4) \<Rightarrow> (Inl e, s4)
      | (Inr r4, s4) \<Rightarrow>
     (case check_macro_triggers E m s4 of
        (Inl e, s5) \<Rightarrow> (Inl e, s5)
      | (Inr r5, s5) \<Rightarrow> (Inr (r1, r2, r3, r4, r5), s5))))))"

text \<open>
  Lines 143 to 151 of \<^verbatim>\<open>check_all_triggers\<close>: the allocation-change notification. A
  non-empty tuple is true in Python, so \<^verbatim>\<open>self.last_allocation and ...\<close> asks that a last
  allocation exists.
\<close>

definition allocation_update ::
  "env \<Rightarrow> allocation \<Rightarrow> state \<Rightarrow> (error + unit) \<times> state" where
  "allocation_update E current_allocation s =
     (case last_allocation s of
        None \<Rightarrow> (Inr (), s)
      | Some prev \<Rightarrow>
          if prev \<noteq> current_allocation then
            (let btc_change = (fst current_allocation - fst prev) * 100;
                 message = allocation_message E current_allocation;
                 s1 = snd (send_telegram_message E message s)
             in append_journal_entry E ''ALLOCATION'' btc_change ''Auto allocation update''
                  emoji_bar_chart s1)
          else (Inr (), s))"

definition check_all_triggers ::
  "env \<Rightarrow> metrics \<Rightarrow> state \<Rightarrow> (error + trigger_results) \<times> state" where
  "check_all_triggers E m s =
     (case run_evaluators E m s of
        (Inl e, s1) \<Rightarrow> (Inl e, s1)
      | (Inr (r1, r2, r3, r4, r5), s1) \<Rightarrow>
          (let current_allocation = calculate_allocation m in
           case allocation_update E current_allocation s1 of
             (Inl e, s2) \<Rightarrow> (Inl e, s2)
           | (Inr u, s2) \<Rightarrow>
               (Inr \<lparr>rotation = r1, alt_season = r2, funding = r3, stablecoin = r4,
                     macro = r5, allocation = current_allocation\<rparr>,
                s2\<lparr>last_allocation := Some current_allocation\<rparr>)))"

subsection \<open>The conditions of the evaluators\<close>

text \<open>The three tuples of \<^verbatim>\<open>calculate_allocation\<close>, under the names of its comments.\<close>

definition dominance_phase :: allocation where
  "dominance_phase = (0.70, 0.25, 0.05)"

definition alt_phase :: allocation where
  "alt_phase = (0.45, 0.50, 0.05)"

definition neutral_phase :: allocation where
  "neutral_phase = (0.60, 0.35, 0.05)"

definition tuple_sum :: "allocation \<Rightarrow> real" where
  "tuple_sum a = fst a + fst (snd a) + snd (snd a)"


text \<open>The guard of each \<^verbatim>\<open>if\<close> that fires a trigger, read in the state the evaluator starts in.\<close>

definition rotation_fires :: "env \<Rightarrow> metrics \<Rightarrow> state \<Rightarrow> bool" where
  "rotation_fires E m s =
     (dict_get (btc_dominance m) 60 < 60 \<and> dict_get (alt_season_index m) 50 > 50
      \<and> should_trigger E s ''rotation'')"

definition alt_full_fires :: "env \<Rightarrow> metrics \<Rightarrow> state \<Rightarrow> bool" where
  "alt_full_fires E m s =
     (dict_get (alt_season_index m) 50 \<ge> 75 \<and> should_trigger E s ''alt_season_full'')"

definition alt_end_fires :: "env \<Rightarrow> metrics \<Rightarrow> state \<Rightarrow> bool" where
  "alt_end_fires E m s =
     (\<not> alt_full_fires E m s
      \<and> dict_get (alt_season_index m) 50 \<le> 25 \<and> should_trigger E s ''alt_season_end'')"

definition funding_btc_fires :: "env \<Rightarrow> metrics \<Rightarrow> state \<Rightarrow> bool" where
  "funding_btc_fires E m s =
     (\<bar>dict_get (btc_funding_rate m) 0\<bar> \<ge> 0.10 \<and> should_trigger E s ''funding_btc'')"

definition funding_hype_fires :: "env \<Rightarrow> metrics \<Rightarrow> state \<Rightarrow> bool" where
  "funding_hype_fires E m s =
     (\<bar>dict_get (hype_funding_rate m) 0\<bar> \<ge> 0.10 \<and> should_trigger E s ''funding_hype'')"

definition stablecoin_fires :: "env \<Rightarrow> metrics \<Rightarrow> state \<Rightarrow> bool" where
  "stablecoin_fires E m s =
     (dict_get (stablecoin_delta m) 0 \<ge> 1000000000
      \<and> should_trigger E s ''stablecoin_issuance'')"

text \<open>
  A macro event qualifies when its date is present and parses, lies within 12 hours of
  now, its name is present and the cooldown of \<open>macro_<name>\<close> lets it fire.
\<close>

definition qualifies :: "env \<Rightarrow> state \<Rightarrow> macro_event \<Rightarrow> bool" where
  "qualifies E s ev =
     (case date ev of
        None \<Rightarrow> False
      | Some d \<Rightarrow>
          (case strptime E d of
             None \<Rightarrow> False
           | Some event_date \<Rightarrow>
               \<bar>(event_date - datetime_now E) / 3600\<bar> \<le> 12 \<and>
               (case event ev of
                  None \<Rightarrow> False
                | Some name \<Rightarrow> should_trigger E s (''macro_'' @ name))))"

definition macro_key :: "macro_event \<Rightarrow> string" where
  "macro_key ev = ''macro_'' @ dict_get (event ev) []"

definition macro_alert :: "macro_event \<Rightarrow> string" where
  "macro_alert ev = macro_message (dict_get (event ev) []) (dict_get (date ev) [])"

definition macro_calls :: "macro_event \<Rightarrow> sink_call list" where
  "macro_calls ev =
     [Notify (macro_alert ev),
      Journal ''CASH'' 0 (macro_reason (dict_get (event ev) [])) emoji_calendar]"

text \<open>Whether the date field of an event fails to parse.\<close>

definition date_unparsable :: "env \<Rightarrow> macro_event \<Rightarrow> bool" where
  "date_unparsable E ev =
     (case date ev of None \<Rightarrow> True | Some d \<Rightarrow> strptime E d = None)"


definition macro_journal_ok :: "env \<Rightarrow> bool" where
  "macro_journal_ok E = (\<forall>r e. \<not> journal_raises E ''CASH'' 0 r e)"

text \<open>The texts handed to the notification sink, in call order.\<close>

fun alerts_of :: "sink_call list \<Rightarrow> string list" where
  "alerts_of [] = []"
| "alerts_of (Notify t # cs) = t # alerts_of cs"
| "alerts_of (Journal a c r e # cs) = alerts_of cs"

text \<open>The five trigger categories, their evaluators and the cooldown keys each one owns.\<close>

datatype category = Rotation | AltSeason | Funding | Stablecoin | Macro

fun evaluator ::
  "category \<Rightarrow> env \<Rightarrow> metrics \<Rightarrow> state \<Rightarrow> (error + string option) \<times> state" where
  "evaluator Rotation = check_rotation_triggers"
| "evaluator AltSeason = check_alt_season_triggers"
| "evaluator Funding = check_funding_triggers"
| "evaluator Stablecoin = check_stablecoin_triggers"
| "evaluator Macro = check_macro_triggers"

fun owns :: "category \<Rightarrow> string \<Rightarrow> bool" where
  "owns Rotation k = (k = ''rotation'')"
| "owns AltSeason k = (k = ''alt_season_full'' \<or> k = ''alt_season_end'')"
| "owns Funding k = (k = ''funding_btc'' \<or> k = ''funding_hype'')"
| "owns Stablecoin k = (k = ''stablecoin_issuance'')"
| "owns Macro k = (take 6 k = ''macro_'')"

subsection \<open>Concrete inputs\<close>

text \<open>
  An engine just constructed, in a world where nothing has been written yet, and an
  environment at instant \<open>t\<close> with no Telegram bot configured, in which the date
  \<^verbatim>\<open>2025-07-12\<close> parses to instant 1752278400 and no other string parses.
\<close>

definition blank_world :: state where
  "blank_world =
     \<lparr>last_allocation = None, last_trigger_time = Map.empty, cooldown_hours = 0,
      stdout = [], telegram_chat = [], journal_file = None, calls = []\<rparr>"

definition fresh_engine :: state where
  "fresh_engine = TriggerEngine_init blank_world"

definition env_at :: "real \<Rightarrow> bool \<Rightarrow> env" where
  "env_at t journal_down =
     \<lparr>time_time = t, datetime_now = t,
      strptime = (\<lambda>d. if d = ''2025-07-12'' then Some 1752278400 else None),
      format_spec = (\<lambda>spec x. ''#''),
      TG_TOKEN = None, TG_CHAT = None,
      requests_post = (\<lambda>text. None),
      journal_raises = (\<lambda>a c r e. journal_down)\<rparr>"

definition no_metrics :: metrics where
  "no_metrics =
     \<lparr>btc_dominance = None, alt_season_index = None, btc_funding_rate = None,
      hype_funding_rate = None, stablecoin_delta = None, macro_events = None\<rparr>"

text \<open>Scenario B of the specification, and a snapshot with two macro events of one date.\<close>

definition scenario_B :: metrics where
  "scenario_B = no_metrics\<lparr>btc_dominance := Some 55, alt_season_index := Some 80\<rparr>"

definition fed_meeting :: macro_event where
  "fed_meeting = \<lparr>event = Some ''Fed Meeting'', date = Some ''2025-07-12''\<rparr>"

definition cpi_release :: macro_event where
  "cpi_release = \<lparr>event = Some ''CPI'', date = Some ''2025-07-12''\<rparr>"

definition two_events :: metrics where
  "two_events = no_metrics\<lparr>macro_events := Some [fed_meeting, cpi_release]\<rparr>"


definition misdated :: macro_event where
  "misdated = \<lparr>event = Some ''Jobs Report'', date = Some ''12/07/2025''\<rparr>"

definition misdated_then_two :: metrics where
  "misdated_then_two = no_metrics\<lparr>macro_events := Some [misdated, fed_meeting, cpi_release]\<rparr>"


text \<open>
  An environment in which the Telegram bot is configured and every request fails, and the
  journal raises for the entries of the macro evaluator.
\<close>

definition flaky_env :: env where
  "flaky_env =
     (env_at 1752278400 False)
       \<lparr>TG_TOKEN := Some ''token'', TG_CHAT := Some ''chat'',
        requests_post := (\<lambda>text. Some ''Read timed out''),
        journal_raises := (\<lambda>a c r e. a = ''CASH'')\<rparr>"

definition busy_snapshot :: metrics where
  "busy_snapshot = scenario_B\<lparr>macro_events := Some [fed_meeting, cpi_release]\<rparr>"

section \<open>What each operation changes\<close>

subsection \<open>The collaborators and the cooldown tracker\<close>

lemma send_telegram_message_fields [simp]:
  "last_allocation (snd (send_telegram_message E t s)) = last_allocation s"
  "last_trigger_time (snd (send_telegram_message E t s)) = last_trigger_time s"
  "cooldown_hours (snd (send_telegram_message E t s)) = cooldown_hours s"
  "journal_file (snd (send_telegram_message E t s)) = journal_file s"
  "calls (snd (send_telegram_message E t s)) = calls s @ [Notify t]"
  by (simp_all add: send_telegram_message_def Let_def split: option.splits)

lemma append_journal_entry_fields [simp]:
  "last_allocation (snd (append_journal_entry E a c r e s)) = last_allocation s"
  "last_trigger_time (snd (append_journal_entry E a c r e s)) = last_trigger_time s"
  "cooldown_hours (snd (append_journal_entry E a c r e s)) = cooldown_hours s"
  "stdout (snd (append_journal_entry E a c r e s)) = stdout s"
  "telegram_chat (snd (append_journal_entry E a c r e s)) = telegram_chat s"
  "calls (snd (append_journal_entry E a c r e s)) = calls s @ [Journal a c r e]"
  by (simp_all add: append_journal_entry_def ensure_journal_exists_def Let_def
      split: option.splits)

lemma append_journal_entry_fst [simp]:
  "fst (append_journal_entry E a c r e s) =
     (if journal_raises E a c r e then Inl OSError else Inr ())"
  by (simp add: append_journal_entry_def Let_def)

lemma record_trigger_fields [simp]:
  "last_allocation (record_trigger E k s) = last_allocation s"
  "last_trigger_time (record_trigger E k s) = (last_trigger_time s)(k \<mapsto> time_time E)"
  "cooldown_hours (record_trigger E k s) = cooldown_hours s"
  "calls (record_trigger E k s) = calls s"
  by (simp_all add: record_trigger_def)

lemma should_trigger_cong:
  "last_trigger_time s k = last_trigger_time s' k \<Longrightarrow> cooldown_hours s = cooldown_hours s'
   \<Longrightarrow> should_trigger E s k = should_trigger E s' k"
  by (simp add: should_trigger_def)

lemma should_trigger_recorded:
  "last_trigger_time s k = Some t \<Longrightarrow> cooldown_hours s = 12 \<Longrightarrow> time_time E - t < 43200
   \<Longrightarrow> \<not> should_trigger E s k"
  by (simp add: should_trigger_def dict_get_def)

lemma should_trigger_elapsed:
  "last_trigger_time s k = Some t \<Longrightarrow> cooldown_hours s = 12 \<Longrightarrow> 43200 \<le> time_time E - t
   \<Longrightarrow> should_trigger E s k"
  by (simp add: should_trigger_def dict_get_def)

lemma case_sum_prod:
  "(case p of (Inl e, s) \<Rightarrow> f e s | (Inr u, s) \<Rightarrow> g u s)
     = (case fst p of Inl e \<Rightarrow> f e (snd p) | Inr u \<Rightarrow> g u (snd p))"
  by (cases p) (simp split: sum.splits)

subsection \<open>Rotation\<close>

lemma check_rotation_triggers_fst:
  "fst (check_rotation_triggers E m s) =
     (if rotation_fires E m s then
        (if journal_raises E ''ROTATION'' (- 10) ''BTC.D <60, rotate'' emoji_neutral
         then Inl OSError
         else Inr (Some (rotation_message E (dict_get (btc_dominance m) 60)
                           (dict_get (alt_season_index m) 50))))
      else Inr None)"
  by (simp add: check_rotation_triggers_def rotation_fires_def Let_def case_sum_prod)

lemma check_rotation_triggers_fields:
  "last_trigger_time (snd (check_rotation_triggers E m s)) =
     (if rotation_fires E m s then (last_trigger_time s)(''rotation'' \<mapsto> time_time E)
      else last_trigger_time s)"
  "last_allocation (snd (check_rotation_triggers E m s)) = last_allocation s"
  "cooldown_hours (snd (check_rotation_triggers E m s)) = cooldown_hours s"
  "calls (snd (check_rotation_triggers E m s)) = calls s @
     (if rotation_fires E m s then
        [Notify (rotation_message E (dict_get (btc_dominance m) 60)
                   (dict_get (alt_season_index m) 50)),
         Journal ''ROTATION'' (- 10) ''BTC.D <60, rotate'' emoji_neutral]
      else [])"
  by (simp_all add: check_rotation_triggers_def rotation_fires_def Let_def case_sum_prod)

subsection \<open>Alt season\<close>

lemma check_alt_season_triggers_fst:
  "fst (check_alt_season_triggers E m s) =
     (if alt_full_fires E m s then
        (if journal_raises E ''ALTS'' 25 ''Full alt-season'' emoji_rocket then Inl OSError
         else Inr (Some (alt_full_message E (dict_get (alt_season_index m) 50))))
      else if alt_end_fires E m s then
        (if journal_raises E ''BTC'' 20 ''Back to BTC dominance'' emoji_chart_down
         then Inl OSError
         else Inr (Some (alt_end_message E (dict_get (alt_season_index m) 50))))
      else Inr None)"
  by (simp add: check_alt_season_triggers_def alt_full_fires_def alt_end_fires_def Let_def
      case_sum_prod)

lemma check_alt_season_triggers_fields:
  "last_trigger_time (snd (check_alt_season_triggers E m s)) =
     (if alt_full_fires E m s then (last_trigger_time s)(''alt_season_full'' \<mapsto> time_time E)
      else if alt_end_fires E m s
      then (last_trigger_time s)(''alt_season_end'' \<mapsto> time_time E)
      else last_trigger_time s)"
  "last_allocation (snd (check_alt_season_triggers E m s)) = last_allocation s"
  "cooldown_hours (snd (check_alt_season_triggers E m s)) = cooldown_hours s"
  "calls (snd (check_alt_season_triggers E m s)) = calls s @
     (if alt_full_fires E m s then
        [Notify (alt_full_message E (dict_get (alt_season_index m) 50)),
         Journal ''ALTS'' 25 ''Full alt-season'' emoji_rocket]
      else if alt_end_fires E m s then
        [Notify (alt_end_message E (dict_get (alt_season_index m) 50)),
         Journal ''BTC'' 20 ''Back to BTC dominance'' emoji_chart_down]
      else [])"
  by (simp_all add: check_alt_season_triggers_def alt_full_fires_def alt_end_fires_def Let_def
      case_sum_prod)

subsection \<open>Stablecoin issuance\<close>

lemma check_stablecoin_triggers_fst:
  "fst (check_stablecoin_triggers E m s) =
     (if stablecoin_fires E m s then
        (if journal_raises E ''STABLES'' 10 ''New stable-coin issuance'' emoji_money
         then Inl OSError
         else Inr (Some (stablecoin_message E (dict_get (stablecoin_delta m) 0))))
      else Inr None)"
  by (simp add: check_stablecoin_triggers_def stablecoin_fires_def Let_def case_sum_prod)

lemma check_stablecoin_triggers_fields:
  "last_trigger_time (snd (check_stablecoin_triggers E m s)) =
     (if stablecoin_fires E m s
      then (last_trigger_time s)(''stablecoin_issuance'' \<mapsto> time_time E)
      else last_trigger_time s)"
  "last_allocation (snd (check_stablecoin_triggers E m s)) = last_allocation s"
  "cooldown_hours (snd (check_stablecoin_triggers E m s)) = cooldown_hours s"
  "calls (snd (check_stablecoin_triggers E m s)) = calls s @
     (if stablecoin_fires E m s then
        [Notify (stablecoin_message E (dict_get (stablecoin_delta m) 0)),
         Journal ''STABLES'' 10 ''New stable-coin issuance'' emoji_money]
      else [])"
  by (simp_all add: check_stablecoin_triggers_def stablecoin_fires_def Let_def case_sum_prod)

subsection \<open>Funding\<close>

lemma funding_btc_check_fst:
  "fst (funding_btc_check E m ms s) =
     (if funding_btc_fires E m s then
        (if journal_raises E ''BTC'' (- 20)
              (funding_btc_reason E (dict_get (btc_funding_rate m) 0)) emoji_warning
         then Inl OSError
         else Inr (ms @ [funding_btc_message E (dict_get (btc_funding_rate m) 0)]))
      else Inr ms)"
  by (simp add: funding_btc_check_def funding_btc_fires_def Let_def case_sum_prod)

lemma funding_btc_check_fields:
  "last_trigger_time (snd (funding_btc_check E m ms s)) =
     (if funding_btc_fires E m s then (last_trigger_time s)(''funding_btc'' \<mapsto> time_time E)
      else last_trigger_time s)"
  "last_allocation (snd (funding_btc_check E m ms s)) = last_allocation s"
  "cooldown_hours (snd (funding_btc_check E m ms s)) = cooldown_hours s"
  "calls (snd (funding_btc_check E m ms s)) = calls s @
     (if funding_btc_fires E m s then
        [Notify (funding_btc_message E (dict_get (btc_funding_rate m) 0)),
         Journal ''BTC'' (- 20) (funding_btc_reason E (dict_get (btc_funding_rate m) 0))
           emoji_warning]
      else [])"
  by (simp_all add: funding_btc_check_def funding_btc_fires_def Let_def case_sum_prod)

lemma funding_hype_check_fst:
  "fst (funding_hype_check E m ms s) =
     (if funding_hype_fires E m s then
        (if journal_raises E ''HYPE'' (- 20)
              (funding_hype_reason E (dict_get (hype_funding_rate m) 0)) emoji_warning
         then Inl OSError
         else Inr (ms @ [funding_hype_message E (dict_get (hype_funding_rate m) 0)]))
      else Inr ms)"
  by (simp add: funding_hype_check_def funding_hype_fires_def Let_def case_sum_prod)

lemma funding_hype_check_fields:
  "last_trigger_time (snd (funding_hype_check E m ms s)) =
     (if funding_hype_fires E m s then (last_trigger_time s)(''funding_hype'' \<mapsto> time_time E)
      else last_trigger_time s)"
  "last_allocation (snd (funding_hype_check E m ms s)) = last_allocation s"
  "cooldown_hours (snd (funding_hype_check E m ms s)) = cooldown_hours s"
  "calls (snd (funding_hype_check E m ms s)) = calls s @
     (if funding_hype_fires E m s then
        [Notify (funding_hype_message E (dict_get (hype_funding_rate m) 0)),
         Journal ''HYPE'' (- 20) (funding_hype_reason E (dict_get (hype_funding_rate m) 0))
           emoji_warning]
      else [])"
  by (simp_all add: funding_hype_check_def funding_hype_fires_def Let_def case_sum_prod)

text \<open>The first half does not change what the second half reads.\<close>

lemma funding_hype_fires_after_btc:
  "funding_hype_fires E m (snd (funding_btc_check E m ms s)) = funding_hype_fires E m s"
  by (simp add: funding_hype_fires_def should_trigger_def funding_btc_check_fields)

lemma check_funding_triggers_unfold:
  "check_funding_triggers E m s =
     (case fst (funding_btc_check E m [] s) of
        Inl e \<Rightarrow> (Inl e, snd (funding_btc_check E m [] s))
      | Inr ms1 \<Rightarrow>
          (case fst (funding_hype_check E m ms1 (snd (funding_btc_check E m [] s))) of
             Inl e \<Rightarrow> (Inl e, snd (funding_hype_check E m ms1 (snd (funding_btc_check E m [] s))))
           | Inr ms \<Rightarrow>
               (Inr (if ms \<noteq> [] then Some (join ''; '' ms) else None),
                snd (funding_hype_check E m ms1 (snd (funding_btc_check E m [] s))))))"
  by (simp add: check_funding_triggers_def case_sum_prod split: sum.splits)

lemma check_funding_triggers_fst:
  "fst (check_funding_triggers E m s) =
     (if funding_btc_fires E m s \<and>
         journal_raises E ''BTC'' (- 20)
           (funding_btc_reason E (dict_get (btc_funding_rate m) 0)) emoji_warning
      then Inl OSError
      else if funding_hype_fires E m s \<and>
         journal_raises E ''HYPE'' (- 20)
           (funding_hype_reason E (dict_get (hype_funding_rate m) 0)) emoji_warning
      then Inl OSError
      else Inr
        (if funding_btc_fires E m s \<and> funding_hype_fires E m s
         then Some (funding_btc_message E (dict_get (btc_funding_rate m) 0) @ ''; '' @
                    funding_hype_message E (dict_get (hype_funding_rate m) 0))
         else if funding_btc_fires E m s
         then Some (funding_btc_message E (dict_get (btc_funding_rate m) 0))
         else if funding_hype_fires E m s
         then Some (funding_hype_message E (dict_get (hype_funding_rate m) 0))
         else None))"
  by (simp add: check_funding_triggers_unfold funding_btc_check_fst funding_hype_check_fst
      funding_hype_fires_after_btc)

lemma check_funding_triggers_fields:
  "last_allocation (snd (check_funding_triggers E m s)) = last_allocation s"
  "cooldown_hours (snd (check_funding_triggers E m s)) = cooldown_hours s"
  by (simp_all add: check_funding_triggers_unfold funding_btc_check_fields
      funding_hype_check_fields split: sum.splits)

lemma check_funding_triggers_keys:
  "k \<noteq> ''funding_btc'' \<Longrightarrow> k \<noteq> ''funding_hype''
   \<Longrightarrow> last_trigger_time (snd (check_funding_triggers E m s)) k = last_trigger_time s k"
  by (simp add: check_funding_triggers_unfold funding_btc_check_fields
      funding_hype_check_fields split: sum.splits)

lemma funding_btc_check_cooled:
  "\<not> should_trigger E s k
   \<Longrightarrow> last_trigger_time (snd (funding_btc_check E m ms s)) k = last_trigger_time s k"
  by (auto simp add: funding_btc_check_fields funding_btc_fires_def)

lemma funding_hype_check_cooled:
  "\<not> should_trigger E s k
   \<Longrightarrow> last_trigger_time (snd (funding_hype_check E m ms s)) k = last_trigger_time s k"
  by (auto simp add: funding_hype_check_fields funding_hype_fires_def)

lemma check_funding_triggers_cooled:
  assumes "\<not> should_trigger E s k"
  shows "last_trigger_time (snd (check_funding_triggers E m s)) k = last_trigger_time s k"
proof -
  let ?s1 = "snd (funding_btc_check E m [] s)"
  have one: "last_trigger_time ?s1 k = last_trigger_time s k"
    using assms by (rule funding_btc_check_cooled)
  then have "\<not> should_trigger E ?s1 k"
    using assms by (simp add: should_trigger_def funding_btc_check_fields)
  then have two: "last_trigger_time (snd (funding_hype_check E m ms ?s1)) k
                  = last_trigger_time s k" for ms
    using one by (simp add: funding_hype_check_cooled)
  show ?thesis
    by (simp add: check_funding_triggers_unfold one two split: sum.splits)
qed

subsection \<open>Macro events\<close>

lemma macro_loop_no_error: "\<exists>r. fst (macro_loop E evs s) = Inr r"
  by (induction evs arbitrary: s)
    (auto simp add: Let_def case_sum_prod split: option.splits sum.splits)

lemma macro_loop_fields:
  "last_allocation (snd (macro_loop E evs s)) = last_allocation s"
  "cooldown_hours (snd (macro_loop E evs s)) = cooldown_hours s"
  by (induction evs arbitrary: s)
    (auto simp add: Let_def case_sum_prod split: option.splits sum.splits)

lemma macro_loop_keys:
  "take 6 k \<noteq> ''macro_''
   \<Longrightarrow> last_trigger_time (snd (macro_loop E evs s)) k = last_trigger_time s k"
  by (induction evs arbitrary: s)
    (auto simp add: Let_def case_sum_prod split: option.splits sum.splits)

lemma macro_loop_cooled:
  "\<not> should_trigger E s k
   \<Longrightarrow> last_trigger_time (snd (macro_loop E evs s)) k = last_trigger_time s k"
proof (induction evs arbitrary: s)
  case Nil
  then show ?case by simp
next
  case (Cons ev evs)
  have step: "last_trigger_time (snd (macro_loop E evs s')) k = last_trigger_time s k"
    if "last_trigger_time s' k = last_trigger_time s k" "cooldown_hours s' = cooldown_hours s"
    for s'
  proof -
    from that Cons.prems have "\<not> should_trigger E s' k"
      by (simp add: should_trigger_def)
    then show ?thesis using Cons.IH that by simp
  qed
  show ?case
    using Cons.prems
    by (auto simp add: Let_def case_sum_prod step split: option.splits sum.splits)
qed

text \<open>While the journal takes every entry of the macro evaluator, the loop is a search.\<close>

lemma macro_loop_skip:
  "\<not> qualifies E s ev \<Longrightarrow> macro_loop E (ev # evs) s = macro_loop E evs s"
  by (auto simp add: qualifies_def Let_def split: option.splits)

lemma macro_loop_fire:
  assumes "qualifies E s ev" and "macro_journal_ok E"
  shows "fst (macro_loop E (ev # evs) s) = Inr (Some (macro_alert ev))"
    and "last_trigger_time (snd (macro_loop E (ev # evs) s)) =
           (last_trigger_time s)(macro_key ev \<mapsto> time_time E)"
    and "calls (snd (macro_loop E (ev # evs) s)) = calls s @ macro_calls ev"
  using assms
  by (auto simp add: qualifies_def macro_journal_ok_def macro_alert_def macro_key_def
      macro_calls_def dict_get_def Let_def case_sum_prod split: option.splits)

lemma macro_loop_find:
  assumes "macro_journal_ok E"
  shows "fst (macro_loop E evs s) = Inr (map_option macro_alert (find (qualifies E s) evs))"
    and "last_trigger_time (snd (macro_loop E evs s)) =
           (case find (qualifies E s) evs of
              None \<Rightarrow> last_trigger_time s
            | Some ev \<Rightarrow> (last_trigger_time s)(macro_key ev \<mapsto> time_time E))"
    and "calls (snd (macro_loop E evs s)) = calls s @
           (case find (qualifies E s) evs of None \<Rightarrow> [] | Some ev \<Rightarrow> macro_calls ev)"
proof (induction evs)
  case Nil
  { case 1 show ?case by simp }
  { case 2 show ?case by simp }
  { case 3 show ?case by simp }
next
  case (Cons ev evs)
  { case 1 show ?case
      using Cons.IH(1) macro_loop_fire(1) [OF _ assms, of s ev evs]
      by (cases "qualifies E s ev") (simp_all add: macro_loop_skip del: macro_loop.simps) }
  { case 2 show ?case
      using Cons.IH(2) macro_loop_fire(2) [OF _ assms, of s ev evs]
      by (cases "qualifies E s ev") (simp_all add: macro_loop_skip del: macro_loop.simps) }
  { case 3 show ?case
      using Cons.IH(3) macro_loop_fire(3) [OF _ assms, of s ev evs]
      by (cases "qualifies E s ev") (simp_all add: macro_loop_skip del: macro_loop.simps) }
qed

lemma alerts_of_append [simp]: "alerts_of (xs @ ys) = alerts_of xs @ alerts_of ys"
  by (induction xs rule: alerts_of.induct) simp_all

subsection \<open>The five evaluators, uniformly\<close>

lemma check_macro_triggers_fields:
  "last_allocation (snd (check_macro_triggers E m s)) = last_allocation s"
  "cooldown_hours (snd (check_macro_triggers E m s)) = cooldown_hours s"
  by (simp_all add: check_macro_triggers_def macro_loop_fields)

lemma evaluator_fields:
  "last_allocation (snd (evaluator c E m s)) = last_allocation s"
  "cooldown_hours (snd (evaluator c E m s)) = cooldown_hours s"
  by (cases c; simp add: check_rotation_triggers_fields check_alt_season_triggers_fields
      check_funding_triggers_fields check_stablecoin_triggers_fields
      check_macro_triggers_fields)+

lemma evaluator_keys:
  "\<not> owns c k \<Longrightarrow> last_trigger_time (snd (evaluator c E m s)) k = last_trigger_time s k"
  by (cases c)
    (simp_all add: check_rotation_triggers_fields check_alt_season_triggers_fields
      check_funding_triggers_keys check_stablecoin_triggers_fields
      check_macro_triggers_def macro_loop_keys)

lemma evaluator_cooled:
  "\<not> should_trigger E s k
   \<Longrightarrow> last_trigger_time (snd (evaluator c E m s)) k = last_trigger_time s k"
  by (cases c)
    (auto simp add: check_rotation_triggers_fields check_alt_season_triggers_fields
      check_funding_triggers_cooled check_stablecoin_triggers_fields
      check_macro_triggers_def macro_loop_cooled rotation_fires_def alt_full_fires_def
      alt_end_fires_def stablecoin_fires_def)

lemma owns_distinct: "c \<noteq> c' \<Longrightarrow> owns c k \<Longrightarrow> \<not> owns c' k"
  by (cases c; cases c'; auto)

text \<open>No journal call outside the macro evaluator raises.\<close>

lemma evaluator_returns:
  assumes "\<And>a c r e. a \<noteq> ''CASH'' \<Longrightarrow> \<not> journal_raises E a c r e"
  shows "\<exists>r. fst (evaluator c E m s) = Inr r"
  using assms
  by (cases c)
    (simp_all add: check_rotation_triggers_fst check_alt_season_triggers_fst
      check_funding_triggers_fst check_stablecoin_triggers_fst check_macro_triggers_def
      macro_loop_no_error)

subsection \<open>The whole cycle\<close>

lemma run_evaluators_unfold:
  "run_evaluators E m s =
     (let p1 = check_rotation_triggers E m s in
      case fst p1 of Inl e \<Rightarrow> (Inl e, snd p1) | Inr r1 \<Rightarrow>
     (let p2 = check_alt_season_triggers E m (snd p1) in
      case fst p2 of Inl e \<Rightarrow> (Inl e, snd p2) | Inr r2 \<Rightarrow>
     (let p3 = check_funding_triggers E m (snd p2) in
      case fst p3 of Inl e \<Rightarrow> (Inl e, snd p3) | Inr r3 \<Rightarrow>
     (let p4 = check_stablecoin_triggers E m (snd p3) in
      case fst p4 of Inl e \<Rightarrow> (Inl e, snd p4) | Inr r4 \<Rightarrow>
     (let p5 = check_macro_triggers E m (snd p4) in
      case fst p5 of Inl e \<Rightarrow> (Inl e, snd p5) | Inr r5 \<Rightarrow>
        (Inr (r1, r2, r3, r4, r5), snd p5))))))"
  by (simp add: run_evaluators_def Let_def split: prod.splits sum.splits)

text \<open>
  A property of the state that every evaluator keeps, whatever its outcome, is kept by the
  five in sequence.
\<close>

lemma run_evaluators_keeps:
  assumes step: "\<And>c t. P t \<Longrightarrow> P (snd (evaluator c E m t))"
    and start: "P s"
  shows "P (snd (run_evaluators E m s))"
proof -
  let ?s1 = "snd (evaluator Rotation E m s)"
  let ?s2 = "snd (evaluator AltSeason E m ?s1)"
  let ?s3 = "snd (evaluator Funding E m ?s2)"
  let ?s4 = "snd (evaluator Stablecoin E m ?s3)"
  let ?s5 = "snd (evaluator Macro E m ?s4)"
  have p1: "P ?s1" using start by (rule step)
  then have p2: "P ?s2" by (rule step)
  then have p3: "P ?s3" by (rule step)
  then have p4: "P ?s4" by (rule step)
  then have p5: "P ?s5" by (rule step)
  from p1 p2 p3 p4 p5 show ?thesis
    by (simp add: run_evaluators_unfold Let_def split: sum.splits)
qed


lemma run_evaluators_cooled:
  assumes "\<not> should_trigger E s k"
  shows "last_trigger_time (snd (run_evaluators E m s)) k = last_trigger_time s k"
proof -
  let ?P = "\<lambda>t::state. last_trigger_time t k = last_trigger_time s k
                 \<and> cooldown_hours t = cooldown_hours s"
  have "?P (snd (run_evaluators E m s))"
  proof (rule run_evaluators_keeps [where P = ?P])
    fix c t
    assume t: "?P t"
    with assms have "\<not> should_trigger E t k"
      by (simp add: should_trigger_def)
    then have "last_trigger_time (snd (evaluator c E m t)) k = last_trigger_time t k"
      by (rule evaluator_cooled)
    with t show "?P (snd (evaluator c E m t))"
      by (simp add: evaluator_fields)
  qed simp
  then show ?thesis by simp
qed

lemma run_evaluators_returns:
  assumes "\<And>a c r e. a \<noteq> ''CASH'' \<Longrightarrow> \<not> journal_raises E a c r e"
  shows "\<exists>rs. fst (run_evaluators E m s) = Inr rs"
proof -
  have ret: "\<exists>r. fst (evaluator c E m t) = Inr r" for c t
    using evaluator_returns [of E c m t] assms by blast
  obtain r1 where r1: "fst (check_rotation_triggers E m s) = Inr r1"
    using ret [of Rotation s] by auto
  let ?s1 = "snd (check_rotation_triggers E m s)"
  obtain r2 where r2: "fst (check_alt_season_triggers E m ?s1) = Inr r2"
    using ret [of AltSeason "?s1"] by auto
  let ?s2 = "snd (check_alt_season_triggers E m ?s1)"
  obtain r3 where r3: "fst (check_funding_triggers E m ?s2) = Inr r3"
    using ret [of Funding "?s2"] by auto
  let ?s3 = "snd (check_funding_triggers E m ?s2)"
  obtain r4 where r4: "fst (check_stablecoin_triggers E m ?s3) = Inr r4"
    using ret [of Stablecoin "?s3"] by auto
  let ?s4 = "snd (check_stablecoin_triggers E m ?s3)"
  obtain r5 where r5: "fst (check_macro_triggers E m ?s4) = Inr r5"
    using ret [of Macro "?s4"] by auto
  show ?thesis
    by (simp add: run_evaluators_unfold Let_def r1 r2 r3 r4 r5)
qed

lemma allocation_update_fst:
  "fst (allocation_update E cur s) =
     (case last_allocation s of
        None \<Rightarrow> Inr ()
      | Some prev \<Rightarrow>
          if prev \<noteq> cur \<and>
             journal_raises E ''ALLOCATION'' ((fst cur - fst prev) * 100)
               ''Auto allocation update'' emoji_bar_chart
          then Inl OSError else Inr ())"
  by (simp add: allocation_update_def Let_def split: option.splits)


lemma check_all_triggers_unfold:
  "check_all_triggers E m s =
     (let p = run_evaluators E m s; cur = calculate_allocation m in
      case fst p of
        Inl e \<Rightarrow> (Inl e, snd p)
      | Inr rs \<Rightarrow>
          (let q = allocation_update E cur (snd p) in
           case fst q of
             Inl e \<Rightarrow> (Inl e, snd q)
           | Inr u \<Rightarrow>
               (Inr \<lparr>rotation = fst rs, alt_season = fst (snd rs),
                     funding = fst (snd (snd rs)), stablecoin = fst (snd (snd (snd rs))),
                     macro = snd (snd (snd (snd rs))), allocation = cur\<rparr>,
                (snd q)\<lparr>last_allocation := Some cur\<rparr>)))"
  by (simp add: check_all_triggers_def Let_def split: prod.splits sum.splits)

subsection \<open>What an evaluator reads\<close>

text \<open>
  Another value at a cooldown key goes through the collaborators and the tracker
  unchanged, so it can be moved to the end of an evaluator that does not read the key.
\<close>

lemma send_telegram_message_other_key:
  "send_telegram_message E t (s\<lparr>last_trigger_time := f\<rparr>) =
     (fst (send_telegram_message E t s),
      (snd (send_telegram_message E t s))\<lparr>last_trigger_time := f\<rparr>)"
  by (simp add: send_telegram_message_def Let_def split: option.splits)

lemma append_journal_entry_other_key:
  "append_journal_entry E a c r e (s\<lparr>last_trigger_time := f\<rparr>) =
     (fst (append_journal_entry E a c r e s),
      (snd (append_journal_entry E a c r e s))\<lparr>last_trigger_time := f\<rparr>)"
  by (simp add: append_journal_entry_def ensure_journal_exists_def Let_def
      split: option.splits)

lemma record_trigger_other_key:
  "k \<noteq> k' \<Longrightarrow>
   record_trigger E k' (s\<lparr>last_trigger_time := (last_trigger_time s)(k := v)\<rparr>) =
     (record_trigger E k' s)\<lparr>last_trigger_time := (last_trigger_time s)(k' \<mapsto> time_time E, k := v)\<rparr>"
  by (simp add: record_trigger_def fun_upd_twist)

lemma should_trigger_other_key:
  "k \<noteq> k' \<Longrightarrow>
   should_trigger E (s\<lparr>last_trigger_time := (last_trigger_time s)(k := v)\<rparr>) k'
     = should_trigger E s k'"
  by (simp add: should_trigger_def)

lemma sinks_other_key:
  assumes "k \<noteq> k'"
  shows "snd (append_journal_entry E a c r e
           (snd (send_telegram_message E t
              (record_trigger E k'
                 (s\<lparr>last_trigger_time := (last_trigger_time s)(k := v)\<rparr>)))))
         = (snd (append_journal_entry E a c r e
              (snd (send_telegram_message E t (record_trigger E k' s)))))
             \<lparr>last_trigger_time :=
                (last_trigger_time
                   (snd (append_journal_entry E a c r e
                      (snd (send_telegram_message E t (record_trigger E k' s))))))(k := v)\<rparr>"
  by (simp add: record_trigger_other_key [OF assms] send_telegram_message_other_key
      append_journal_entry_other_key)

lemma macro_loop_fire_unfold:
  assumes "qualifies E s ev" and "event ev = Some name" and "date ev = Some d"
  shows "macro_loop E (ev # evs) s =
     (if journal_raises E ''CASH'' 0 (macro_reason name) emoji_calendar
      then macro_loop E evs
             (snd (append_journal_entry E ''CASH'' 0 (macro_reason name) emoji_calendar
                (snd (send_telegram_message E (macro_message name d)
                   (record_trigger E (''macro_'' @ name) s)))))
      else (Inr (Some (macro_message name d)),
            snd (append_journal_entry E ''CASH'' 0 (macro_reason name) emoji_calendar
                (snd (send_telegram_message E (macro_message name d)
                   (record_trigger E (''macro_'' @ name) s))))))"
  using assms
  by (auto simp add: qualifies_def Let_def case_sum_prod split: option.splits)

lemma qualifies_other_key:
  assumes "take 6 k \<noteq> ''macro_''"
  shows "qualifies E (s\<lparr>last_trigger_time := (last_trigger_time s)(k := v)\<rparr>) ev
           = qualifies E s ev"
proof -
  have "k \<noteq> ''macro_'' @ name" for name
    using assms by auto
  then show ?thesis
    by (simp add: qualifies_def should_trigger_other_key split: option.splits)
qed

lemma macro_loop_other_key:
  "take 6 k \<noteq> ''macro_'' \<Longrightarrow>
   fst (macro_loop E evs (s\<lparr>last_trigger_time := (last_trigger_time s)(k := v)\<rparr>))
     = fst (macro_loop E evs s)"
proof (induction evs arbitrary: s)
  case Nil
  then show ?case by simp
next
  case (Cons ev evs)
  define u where "u = s\<lparr>last_trigger_time := (last_trigger_time s)(k := v)\<rparr>"
  have skip: "fst (macro_loop E evs u) = fst (macro_loop E evs s)"
    unfolding u_def by (rule Cons.IH [OF Cons.prems])
  have same: "qualifies E u ev = qualifies E s ev"
    unfolding u_def using Cons.prems by (rule qualifies_other_key)
  have "fst (macro_loop E (ev # evs) u) = fst (macro_loop E (ev # evs) s)"
  proof (cases "qualifies E s ev")
    case False
    with same have "\<not> qualifies E u ev" by simp
    then have "macro_loop E (ev # evs) u = macro_loop E evs u"
      by (rule macro_loop_skip)
    moreover from False have "macro_loop E (ev # evs) s = macro_loop E evs s"
      by (rule macro_loop_skip)
    ultimately show ?thesis using skip by simp
  next
    case True
    then obtain name d where nd: "event ev = Some name" "date ev = Some d"
      by (auto simp add: qualifies_def split: option.splits)
    from True same have qu: "qualifies E u ev" by simp
    have other: "k \<noteq> ''macro_'' @ name"
      using Cons.prems by auto
    define s3 where "s3 =
      snd (append_journal_entry E ''CASH'' 0 (macro_reason name) emoji_calendar
        (snd (send_telegram_message E (macro_message name d)
           (record_trigger E (''macro_'' @ name) s))))"
    define u3 where "u3 =
      snd (append_journal_entry E ''CASH'' 0 (macro_reason name) emoji_calendar
        (snd (send_telegram_message E (macro_message name d)
           (record_trigger E (''macro_'' @ name) u))))"
    have moved: "u3 = s3\<lparr>last_trigger_time := (last_trigger_time s3)(k := v)\<rparr>"
      unfolding u3_def s3_def u_def using other by (rule sinks_other_key)
    have rest: "fst (macro_loop E evs u3) = fst (macro_loop E evs s3)"
      unfolding moved by (rule Cons.IH [OF Cons.prems])
    have left: "macro_loop E (ev # evs) u =
        (if journal_raises E ''CASH'' 0 (macro_reason name) emoji_calendar
         then macro_loop E evs u3 else (Inr (Some (macro_message name d)), u3))"
      unfolding u3_def using qu nd by (rule macro_loop_fire_unfold)
    have right: "macro_loop E (ev # evs) s =
        (if journal_raises E ''CASH'' 0 (macro_reason name) emoji_calendar
         then macro_loop E evs s3 else (Inr (Some (macro_message name d)), s3))"
      unfolding s3_def using True nd by (rule macro_loop_fire_unfold)
    show ?thesis
      unfolding left right using rest by simp
  qed
  then show ?case
    unfolding u_def .
qed

lemma evaluator_other_key:
  assumes "\<not> owns c k"
  shows "fst (evaluator c E m (s\<lparr>last_trigger_time := (last_trigger_time s)(k := v)\<rparr>))
           = fst (evaluator c E m s)"
proof (cases c)
  case Rotation
  with assms show ?thesis
    by (auto simp add: check_rotation_triggers_fst rotation_fires_def should_trigger_def)
next
  case AltSeason
  with assms show ?thesis
    by (auto simp add: check_alt_season_triggers_fst alt_full_fires_def alt_end_fires_def
        should_trigger_def)
next
  case Funding
  with assms show ?thesis
    by (auto simp add: check_funding_triggers_fst funding_btc_fires_def funding_hype_fires_def
        should_trigger_def)
next
  case Stablecoin
  with assms show ?thesis
    by (auto simp add: check_stablecoin_triggers_fst stablecoin_fires_def should_trigger_def)
next
  case Macro
  with assms show ?thesis
    by (simp add: check_macro_triggers_def macro_loop_other_key)
qed

section \<open>The claims\<close>

subsection \<open>Allocation bands\<close>

text \<open>
  Claim C1. \<^verbatim>\<open>calculate_allocation\<close> returns one of the three tuples, chosen by the bands in
  priority order: the dominance tuple exactly when \<open>btc_dominance \<ge> 61\<close> and
  \<open>alt_season_index < 50\<close>, otherwise the alt-season tuple exactly when
  \<open>btc_dominance < 60\<close> and \<open>alt_season_index \<ge> 50\<close>, otherwise the neutral tuple. The
  tuple returned sums to 1 within \<open>1e-9\<close>. A missing metric reads as 60 (dominance) or
  50 (index), and with both missing the result is the neutral tuple. With
  \<open>60 \<le> btc_dominance < 61\<close> and \<open>alt_season_index < 50\<close> the result is the neutral tuple.
\<close>

theorem calculate_allocation_bands:
  fixes m :: metrics
  defines "b \<equiv> dict_get (btc_dominance m) 60"
      and "a \<equiv> dict_get (alt_season_index m) 50"
  shows "(calculate_allocation m = dominance_phase \<longleftrightarrow> b \<ge> 61 \<and> a < 50)
       \<and> (calculate_allocation m = alt_phase \<longleftrightarrow> \<not> (b \<ge> 61 \<and> a < 50) \<and> b < 60 \<and> a \<ge> 50)
       \<and> (calculate_allocation m = neutral_phase \<longleftrightarrow>
            \<not> (b \<ge> 61 \<and> a < 50) \<and> \<not> (b < 60 \<and> a \<ge> 50))
       \<and> calculate_allocation m \<in> {dominance_phase, alt_phase, neutral_phase}
       \<and> \<bar>tuple_sum (calculate_allocation m) - 1\<bar> \<le> 1 / 10 ^ 9
       \<and> calculate_allocation (m\<lparr>btc_dominance := None\<rparr>)
            = calculate_allocation (m\<lparr>btc_dominance := Some 60\<rparr>)
       \<and> calculate_allocation (m\<lparr>alt_season_index := None\<rparr>)
            = calculate_allocation (m\<lparr>alt_season_index := Some 50\<rparr>)
       \<and> calculate_allocation (m\<lparr>btc_dominance := None, alt_season_index := None\<rparr>)
            = neutral_phase
       \<and> (60 \<le> b \<and> b < 61 \<and> a < 50 \<longrightarrow> calculate_allocation m = neutral_phase)"
  unfolding b_def a_def
  by (simp add: calculate_allocation_def dominance_phase_def alt_phase_def neutral_phase_def
      tuple_sum_def dict_get_def Let_def)

theorem calculate_allocation_bands_witness:
  "(60::real) \<le> 60.5 \<and> (60.5::real) < 61 \<and> (40::real) < 50
   \<and> calculate_allocation (no_metrics\<lparr>btc_dominance := Some 60.5, alt_season_index := Some 40\<rparr>)
       = neutral_phase
   \<and> calculate_allocation (no_metrics\<lparr>btc_dominance := Some 60.5, alt_season_index := Some 40\<rparr>)
       \<noteq> dominance_phase"
  using calculate_allocation_bands
    [of "no_metrics\<lparr>btc_dominance := Some 60.5, alt_season_index := Some 40\<rparr>"]
  by (simp add: dict_get_def no_metrics_def calculate_allocation_def neutral_phase_def
      dominance_phase_def Let_def)

subsection \<open>Cooldown eligibility\<close>




subsection \<open>The two funding conditions\<close>



subsection \<open>The two alt-season alerts\<close>

text \<open>
  Claim C8. In one call of \<^verbatim>\<open>check_alt_season_triggers\<close> the full alert (index \<open>\<ge> 75\<close>,
  key \<open>alt_season_full\<close>) and the end alert (index \<open>\<le> 25\<close>, key \<open>alt_season_end\<close>, looked at
  only when the full alert does not fire) never both fire: the two guards exclude each
  other, at most one of the two cooldown keys is written, the call hands the notification
  sink at most one text, and the calls it makes to the sinks are none, those of the full
  alert, or those of the end alert.
\<close>

theorem check_alt_season_triggers_exclusive:
  fixes E :: env and m :: metrics and s :: state
  defines "a \<equiv> dict_get (alt_season_index m) 50"
  defines "R \<equiv> check_alt_season_triggers E m s"
  shows "alt_full_fires E m s = (a \<ge> 75 \<and> should_trigger E s ''alt_season_full'')
       \<and> alt_end_fires E m s = (a \<le> 25 \<and> should_trigger E s ''alt_season_end'')
       \<and> \<not> (alt_full_fires E m s \<and> alt_end_fires E m s)
       \<and> last_trigger_time (snd R) =
           (if alt_full_fires E m s
            then (last_trigger_time s)(''alt_season_full'' \<mapsto> time_time E)
            else if alt_end_fires E m s
            then (last_trigger_time s)(''alt_season_end'' \<mapsto> time_time E)
            else last_trigger_time s)
       \<and> (last_trigger_time (snd R) ''alt_season_full'' = last_trigger_time s ''alt_season_full''
          \<or> last_trigger_time (snd R) ''alt_season_end'' = last_trigger_time s ''alt_season_end'')
       \<and> (calls (snd R) = calls s
          \<or> calls (snd R) = calls s @
               [Notify (alt_full_message E a), Journal ''ALTS'' 25 ''Full alt-season'' emoji_rocket]
          \<or> calls (snd R) = calls s @
               [Notify (alt_end_message E a),
                Journal ''BTC'' 20 ''Back to BTC dominance'' emoji_chart_down])
       \<and> length (alerts_of (calls (snd R))) \<le> length (alerts_of (calls s)) + 1"
proof -
  have full: "alt_full_fires E m s = (a \<ge> 75 \<and> should_trigger E s ''alt_season_full'')"
    by (simp add: alt_full_fires_def a_def)
  have end_alert: "alt_end_fires E m s = (a \<le> 25 \<and> should_trigger E s ''alt_season_end'')"
    by (auto simp add: alt_end_fires_def alt_full_fires_def a_def)
  have excl: "\<not> (alt_full_fires E m s \<and> alt_end_fires E m s)"
    by (simp add: alt_end_fires_def)
  have keys: "last_trigger_time (snd R) =
           (if alt_full_fires E m s
            then (last_trigger_time s)(''alt_season_full'' \<mapsto> time_time E)
            else if alt_end_fires E m s
            then (last_trigger_time s)(''alt_season_end'' \<mapsto> time_time E)
            else last_trigger_time s)"
    by (simp add: R_def check_alt_season_triggers_fields)
  have one_key:
    "last_trigger_time (snd R) ''alt_season_full'' = last_trigger_time s ''alt_season_full''
     \<or> last_trigger_time (snd R) ''alt_season_end'' = last_trigger_time s ''alt_season_end''"
    by (simp add: keys)
  have sinks: "calls (snd R) = calls s @
     (if alt_full_fires E m s then
        [Notify (alt_full_message E a), Journal ''ALTS'' 25 ''Full alt-season'' emoji_rocket]
      else if alt_end_fires E m s then
        [Notify (alt_end_message E a),
         Journal ''BTC'' 20 ''Back to BTC dominance'' emoji_chart_down]
      else [])"
    by (simp add: R_def a_def check_alt_season_triggers_fields)
  have three: "calls (snd R) = calls s
          \<or> calls (snd R) = calls s @
               [Notify (alt_full_message E a), Journal ''ALTS'' 25 ''Full alt-season'' emoji_rocket]
          \<or> calls (snd R) = calls s @
               [Notify (alt_end_message E a),
                Journal ''BTC'' 20 ''Back to BTC dominance'' emoji_chart_down]"
    by (simp add: sinks)
  have count: "length (alerts_of (calls (snd R))) \<le> length (alerts_of (calls s)) + 1"
    by (simp add: sinks)
  from full end_alert excl keys one_key three count show ?thesis
    by blast
qed

subsection \<open>Macro events\<close>

text \<open>
  Claim C6, as the specification states it, fails when the journal cannot be written. The
  \<^verbatim>\<open>try\<close> of the loop also covers the two sink calls, so the exception of
  \<^verbatim>\<open>append_journal_entry\<close> is caught like a date that does not parse: the loop goes on to
  the next event after the cooldown of the first was recorded and its alert sent. With two
  qualifying events both alerts are sent in one call, and the call returns no alert.
\<close>

theorem check_macro_triggers_two_alerts_counterexample:
  "qualifies (env_at 1752278400 True) fresh_engine fed_meeting
   \<and> fst (check_macro_triggers (env_at 1752278400 True) two_events fresh_engine) = Inr None
   \<and> alerts_of (calls (snd (check_macro_triggers (env_at 1752278400 True) two_events
        fresh_engine)))
       = [macro_alert fed_meeting, macro_alert cpi_release]"
  by (simp add: check_macro_triggers_def two_events_def no_metrics_def dict_get_def
      fed_meeting_def cpi_release_def qualifies_def env_at_def fresh_engine_def
      TriggerEngine_init_def blank_world_def should_trigger_def record_trigger_def
      send_telegram_message_def append_journal_entry_def falsy_def macro_alert_def Let_def)

text \<open>
  Claim C6, amended. \<^verbatim>\<open>check_macro_triggers\<close> never raises. It goes through
  \<open>macro_events\<close> in order; an event whose date is missing or does not parse is skipped and
  the loop continues with the remaining events. The cooldown key of an event is \<open>macro_\<close>
  followed by its name. While the journal takes the entries of the macro evaluator, the
  call returns the alert of the first qualifying event in list order (absent when none
  qualifies), records the key of that event only, and makes the sink calls of that event
  only: at most one macro alert in the call.
\<close>

theorem check_macro_triggers_first_qualifying:
  fixes E :: env and m :: metrics and s :: state
  defines "evs \<equiv> dict_get (macro_events m) []"
  defines "R \<equiv> check_macro_triggers E m s"
  shows "(\<exists>r. fst R = Inr r)
       \<and> (\<forall>ev rest s'. date_unparsable E ev \<longrightarrow>
            macro_loop E (ev # rest) s' = macro_loop E rest s')
       \<and> (\<forall>ev. qualifies E s ev \<longrightarrow>
            (\<exists>name. event ev = Some name \<and> macro_key ev = ''macro_'' @ name
               \<and> should_trigger E s (''macro_'' @ name)))
       \<and> (macro_journal_ok E \<longrightarrow>
            fst R = Inr (map_option macro_alert (find (qualifies E s) evs))
          \<and> last_trigger_time (snd R) =
              (case find (qualifies E s) evs of
                 None \<Rightarrow> last_trigger_time s
               | Some ev \<Rightarrow> (last_trigger_time s)(macro_key ev \<mapsto> time_time E))
          \<and> calls (snd R) = calls s @
              (case find (qualifies E s) evs of None \<Rightarrow> [] | Some ev \<Rightarrow> macro_calls ev)
          \<and> length (alerts_of (calls (snd R))) \<le> length (alerts_of (calls s)) + 1)"
proof -
  have total: "\<exists>r. fst R = Inr r"
    by (simp add: R_def check_macro_triggers_def macro_loop_no_error)
  have skip: "macro_loop E (ev # rest) s' = macro_loop E rest s'"
    if "date_unparsable E ev" for ev rest s'
    using that by (auto simp add: date_unparsable_def split: option.splits)
  have key: "\<exists>name. event ev = Some name \<and> macro_key ev = ''macro_'' @ name
               \<and> should_trigger E s (''macro_'' @ name)"
    if "qualifies E s ev" for ev
    using that by (auto simp add: qualifies_def macro_key_def dict_get_def split: option.splits)
  have search: "fst R = Inr (map_option macro_alert (find (qualifies E s) evs))
          \<and> last_trigger_time (snd R) =
              (case find (qualifies E s) evs of
                 None \<Rightarrow> last_trigger_time s
               | Some ev \<Rightarrow> (last_trigger_time s)(macro_key ev \<mapsto> time_time E))
          \<and> calls (snd R) = calls s @
              (case find (qualifies E s) evs of None \<Rightarrow> [] | Some ev \<Rightarrow> macro_calls ev)
          \<and> length (alerts_of (calls (snd R))) \<le> length (alerts_of (calls s)) + 1"
    if ok: "macro_journal_ok E"
  proof -
    have "length (alerts_of (calls (snd R))) \<le> length (alerts_of (calls s)) + 1"
      by (simp add: R_def check_macro_triggers_def evs_def macro_loop_find(3) [OF ok]
          macro_calls_def split: option.splits)
    then show ?thesis
      by (simp add: R_def check_macro_triggers_def evs_def macro_loop_find [OF ok])
  qed
  from total skip key search show ?thesis
    by blast
qed

theorem check_macro_triggers_first_qualifying_witness:
  "date_unparsable (env_at 1752278400 False) misdated
   \<and> macro_journal_ok (env_at 1752278400 False)
   \<and> qualifies (env_at 1752278400 False) fresh_engine fed_meeting
   \<and> fst (check_macro_triggers (env_at 1752278400 False) misdated_then_two fresh_engine)
       = Inr (Some (macro_alert fed_meeting))
   \<and> last_trigger_time
       (snd (check_macro_triggers (env_at 1752278400 False) misdated_then_two fresh_engine))
       = [''macro_Fed Meeting'' \<mapsto> 1752278400]
   \<and> alerts_of (calls (snd (check_macro_triggers (env_at 1752278400 False) misdated_then_two
        fresh_engine)))
       = [macro_alert fed_meeting]"
proof -
  let ?E = "env_at 1752278400 False"
  note main = check_macro_triggers_first_qualifying [of ?E misdated_then_two fresh_engine]
  have bad: "date_unparsable ?E misdated"
    by (simp add: date_unparsable_def misdated_def env_at_def)
  have ok: "macro_journal_ok ?E"
    by (simp add: macro_journal_ok_def env_at_def)
  have q1: "\<not> qualifies ?E fresh_engine misdated"
    by (simp add: qualifies_def misdated_def env_at_def)
  have q2: "qualifies ?E fresh_engine fed_meeting"
    by (simp add: qualifies_def fed_meeting_def env_at_def should_trigger_def dict_get_def
        fresh_engine_def TriggerEngine_init_def blank_world_def)
  have found: "find (qualifies ?E fresh_engine) (dict_get (macro_events misdated_then_two) [])
                 = Some fed_meeting"
    using q1 q2 by (simp add: misdated_then_two_def no_metrics_def dict_get_def)
  have start: "last_trigger_time fresh_engine = Map.empty" "calls fresh_engine = []"
    by (simp_all add: fresh_engine_def TriggerEngine_init_def blank_world_def)
  have key: "macro_key fed_meeting = ''macro_Fed Meeting''" "time_time ?E = 1752278400"
    by (simp_all add: macro_key_def fed_meeting_def dict_get_def env_at_def)
  from main ok found start key bad q2 show ?thesis
    by (simp add: macro_calls_def)
qed

subsection \<open>The cooldown is written before the sinks are called\<close>



subsection \<open>The allocation-change notification\<close>



subsection \<open>Failures of the sinks\<close>

text \<open>
  Claim C5, as the specification states it, fails for the journal sink. The evaluators
  call \<^verbatim>\<open>append_journal_entry\<close> with no handler around it (the macro evaluator apart), so
  its exception leaves \<^verbatim>\<open>check_all_triggers\<close>: in scenario B with a journal that cannot be
  written, the rotation trigger fires, the call ends in the exception, the alt-season
  trigger that would fire is never looked at, and no allocation is stored.
\<close>

theorem journal_failure_aborts_cycle_counterexample:
  "rotation_fires (env_at 1752278400 True) scenario_B fresh_engine
   \<and> alt_full_fires (env_at 1752278400 True) scenario_B fresh_engine
   \<and> fst (check_all_triggers (env_at 1752278400 True) scenario_B fresh_engine) = Inl OSError
   \<and> last_trigger_time (snd (check_all_triggers (env_at 1752278400 True) scenario_B
        fresh_engine)) ''alt_season_full'' = None
   \<and> last_allocation (snd (check_all_triggers (env_at 1752278400 True) scenario_B
        fresh_engine)) = None"
proof -
  let ?E = "env_at 1752278400 True"
  have fresh: "last_trigger_time fresh_engine = Map.empty" "cooldown_hours fresh_engine = 12"
    "last_allocation fresh_engine = None"
    by (simp_all add: fresh_engine_def TriggerEngine_init_def blank_world_def)
  have rot: "rotation_fires ?E scenario_B fresh_engine"
    by (simp add: rotation_fires_def scenario_B_def no_metrics_def dict_get_def
        should_trigger_def fresh env_at_def)
  have alt: "alt_full_fires ?E scenario_B fresh_engine"
    by (simp add: alt_full_fires_def scenario_B_def no_metrics_def dict_get_def
        should_trigger_def fresh env_at_def)
  from rot have err: "fst (check_rotation_triggers ?E scenario_B fresh_engine) = Inl OSError"
    by (simp add: check_rotation_triggers_fst env_at_def)
  then have all: "check_all_triggers ?E scenario_B fresh_engine
                    = (Inl OSError, snd (check_rotation_triggers ?E scenario_B fresh_engine))"
    by (simp add: check_all_triggers_unfold run_evaluators_unfold Let_def)
  from rot alt show ?thesis
    by (simp add: all check_rotation_triggers_fields fresh)
qed

text \<open>
  Claim C5, amended. A failure of the notification sink never reaches the engine:
  \<^verbatim>\<open>send_telegram_message\<close> catches the exception of the request and answers \<^verbatim>\<open>False\<close>,
  and it changes neither the cooldowns, the last allocation nor the journal. The macro
  evaluator catches the exception of its journal call and never raises. So a cycle in
  which no journal call outside the macro evaluator raises runs to completion: it
  returns its result, with the allocation computed from the snapshot, and stores that
  allocation.
\<close>

theorem sink_failures_isolated:
  fixes E :: env and m :: metrics and s :: state
  defines "R \<equiv> check_all_triggers E m s"
  shows "(\<forall>msg t.
            fst (send_telegram_message E msg t)
              = (\<not> falsy (TG_TOKEN E) \<and> \<not> falsy (TG_CHAT E) \<and> requests_post E msg = None)
          \<and> last_trigger_time (snd (send_telegram_message E msg t)) = last_trigger_time t
          \<and> cooldown_hours (snd (send_telegram_message E msg t)) = cooldown_hours t
          \<and> last_allocation (snd (send_telegram_message E msg t)) = last_allocation t
          \<and> journal_file (snd (send_telegram_message E msg t)) = journal_file t)
       \<and> (\<forall>t. \<exists>r. fst (check_macro_triggers E m t) = Inr r)
       \<and> ((\<forall>a c r e. a \<noteq> ''CASH'' \<longrightarrow> \<not> journal_raises E a c r e) \<longrightarrow>
            (\<exists>res. fst R = Inr res \<and> allocation res = calculate_allocation m)
          \<and> last_allocation (snd R) = Some (calculate_allocation m))"
proof -
  have send: "fst (send_telegram_message E msg t)
              = (\<not> falsy (TG_TOKEN E) \<and> \<not> falsy (TG_CHAT E) \<and> requests_post E msg = None)
          \<and> last_trigger_time (snd (send_telegram_message E msg t)) = last_trigger_time t
          \<and> cooldown_hours (snd (send_telegram_message E msg t)) = cooldown_hours t
          \<and> last_allocation (snd (send_telegram_message E msg t)) = last_allocation t
          \<and> journal_file (snd (send_telegram_message E msg t)) = journal_file t" for msg t
    by (simp add: send_telegram_message_def Let_def split: option.splits)
  have mac: "\<exists>r. fst (check_macro_triggers E m t) = Inr r" for t
    by (simp add: check_macro_triggers_def macro_loop_no_error)
  have cycle: "(\<exists>res. fst R = Inr res \<and> allocation res = calculate_allocation m)
          \<and> last_allocation (snd R) = Some (calculate_allocation m)"
    if quiet: "\<forall>a c r e. a \<noteq> ''CASH'' \<longrightarrow> \<not> journal_raises E a c r e"
  proof -
    obtain rs where rs: "fst (run_evaluators E m s) = Inr rs"
      using run_evaluators_returns [of E m s] quiet by blast
    have "fst (allocation_update E (calculate_allocation m) (snd (run_evaluators E m s)))
            = Inr ()"
      using quiet by (simp add: allocation_update_fst split: option.splits)
    with rs show ?thesis
      by (simp add: R_def check_all_triggers_unfold Let_def)
  qed
  from send mac cycle show ?thesis
    by blast
qed

theorem sink_failures_isolated_witness:
  "requests_post flaky_env = (\<lambda>text. Some ''Read timed out'')
   \<and> journal_raises flaky_env = (\<lambda>a c r e. a = ''CASH'')
   \<and> (\<exists>res. fst (check_all_triggers flaky_env busy_snapshot fresh_engine) = Inr res
         \<and> allocation res = alt_phase)
   \<and> last_allocation (snd (check_all_triggers flaky_env busy_snapshot fresh_engine))
       = Some alt_phase"
proof -
  note main = sink_failures_isolated [of flaky_env busy_snapshot fresh_engine]
  have post: "requests_post flaky_env = (\<lambda>text. Some ''Read timed out'')"
    and journal: "journal_raises flaky_env = (\<lambda>a c r e. a = ''CASH'')"
    by (simp_all add: flaky_env_def env_at_def)
  then have quiet: "\<forall>a c r e. a \<noteq> ''CASH'' \<longrightarrow> \<not> journal_raises flaky_env a c r e"
    by simp
  have cur: "calculate_allocation busy_snapshot = alt_phase"
    by (simp add: calculate_allocation_def busy_snapshot_def scenario_B_def no_metrics_def
        dict_get_def alt_phase_def)
  from main quiet have
    "(\<exists>res. fst (check_all_triggers flaky_env busy_snapshot fresh_engine) = Inr res
         \<and> allocation res = calculate_allocation busy_snapshot)
     \<and> last_allocation (snd (check_all_triggers flaky_env busy_snapshot fresh_engine))
         = Some (calculate_allocation busy_snapshot)"
    by blast
  with post journal cur show ?thesis
    by simp
qed

end
